theory Spec2Isabelle
  imports Complex_Main
begin

section \<open>Data model\<close>

text \<open>
  The simulator of \<^verbatim>\<open>simulator.py\<close> and the straddle strategy of
  \<^verbatim>\<open>Strategy.py\<close>, as state-passing functions.

  Numbers: Python floats are modelled as exact reals (no rounding, no infinities, no NaN);
  the literals \<^verbatim>\<open>0.0001\<close>, \<^verbatim>\<open>0.1\<close> and \<^verbatim>\<open>0.01\<close> are the
  fractions they denote. Timestamps are integer epoch seconds.

  Symbols: the dictionaries of the simulator are keyed by whatever the strategy passes to
  \<^verbatim>\<open>onOrder\<close>, which is a \<^verbatim>\<open>str\<close> or, before the first entry, the
  \<^verbatim>\<open>None\<close> that \<^verbatim>\<open>Strategy.__init__\<close> stores in
  \<^verbatim>\<open>call_strike\<close> and \<^verbatim>\<open>put_strike\<close>. A key is therefore a
  \<open>string option\<close>.
\<close>

type_synonym symbol = "string option"

datatype error =
  KeyError string
| ZeroDivisionError
| TypeError

text \<open>One row of the data frame, as \<^verbatim>\<open>iterrows\<close> yields it.\<close>

record row =
  timestamp :: int
  Symbol :: string
  close :: real

text \<open>
  The module \<^verbatim>\<open>config\<close> is not among the sources; what the code reads from it
  is taken as a parameter. \<open>dates\<close> stands for
  \<^verbatim>\<open>pd.date_range(config.startDate, config.endDate).strftime('%Y%m%d')\<close>.
\<close>

record config =
  symbols :: "string list"
  dates :: "string list"

text \<open>
  The host: \<^verbatim>\<open>datetime.fromtimestamp\<close> converts to local time, so the offset of
  local time from UTC (in seconds, at a given epoch second) is an input; \<open>files\<close> is the
  file system under \<^verbatim>\<open>data/\<close>, a present file holding its
  \<^verbatim>\<open>(timestamp, close)\<close> rows.
\<close>

record host =
  utcoffset :: "int \<Rightarrow> int"
  files :: "string \<rightharpoonup> (int \<times> real) list"

text \<open>A fill, as the \<^verbatim>\<open>[TRADE]\<close> line of \<^verbatim>\<open>onOrder\<close> prints it.\<close>

record fill =
  fsymbol :: symbol
  fside :: string
  fquantity :: real
  fprice :: real

record strategy =
  entry_price :: "real option"
  call_strike :: symbol
  put_strike :: symbol
  in_position :: bool
  pnl :: real

record simulator =
  currentPrice :: "symbol \<rightharpoonup> real"
  strategy :: strategy
  buyValue :: "symbol \<rightharpoonup> real"
  sellValue :: "symbol \<rightharpoonup> real"
  currQuantity :: "symbol \<rightharpoonup> real"
  pnl_log :: "(int \<times> real) list"
  trades :: "fill list"

text \<open>\<^verbatim>\<open>Strategy.__init__\<close> and \<^verbatim>\<open>Simulator.__init__\<close>.\<close>

definition Strategy_init :: strategy where
  "Strategy_init =
     \<lparr>entry_price = None, call_strike = None, put_strike = None,
      in_position = False, pnl = 0\<rparr>"

definition Simulator_init :: simulator where
  "Simulator_init =
     \<lparr>currentPrice = Map.empty, strategy = Strategy_init,
      buyValue = Map.empty, sellValue = Map.empty, currQuantity = Map.empty,
      pnl_log = [], trades = []\<rparr>"

text \<open>\<^verbatim>\<open>d.get(k, default)\<close>.\<close>

definition dict_get :: "('k \<rightharpoonup> 'v) \<Rightarrow> 'k \<Rightarrow> 'v \<Rightarrow> 'v" where
  "dict_get d k dflt = (case d k of None \<Rightarrow> dflt | Some v \<Rightarrow> v)"

section \<open>The execution engine\<close>

text \<open>
  \<^verbatim>\<open>Strategy.onTradeConfirmation\<close>: the cash-flow accumulator goes down by the
  notional of a buy and up by the notional of anything else.
\<close>

definition onTradeConfirmation :: "symbol \<Rightarrow> string \<Rightarrow> real \<Rightarrow> real \<Rightarrow> strategy \<Rightarrow> strategy" where
  "onTradeConfirmation symbol side quantity price st =
     (let v = quantity * price in
      if side = ''buy'' then st\<lparr>pnl := pnl st - v\<rparr> else st\<lparr>pnl := pnl st + v\<rparr>)"

definition slippage :: real where
  "slippage = 1 / 10000"

text \<open>The price at which \<^verbatim>\<open>onOrder\<close> executes an order.\<close>

definition trade_price :: "string \<Rightarrow> real \<Rightarrow> real" where
  "trade_price side price =
     (if side = ''buy'' then price * (1 + slippage) else price * (1 - slippage))"

text \<open>
  \<^verbatim>\<open>Simulator.onOrder\<close>: every side other than \<^verbatim>\<open>"buy"\<close> takes the
  \<^verbatim>\<open>else\<close> branch. The printed trade line is kept as a record in \<open>trades\<close>.
\<close>

definition onOrder :: "symbol \<Rightarrow> string \<Rightarrow> real \<Rightarrow> real \<Rightarrow> simulator \<Rightarrow> simulator" where
  "onOrder symbol side quantity price s =
     (let tp = trade_price side price;
          s1 = (if side = ''buy''
                then s\<lparr>currQuantity := (currQuantity s)(symbol \<mapsto> dict_get (currQuantity s) symbol 0 + quantity),
                       buyValue := (buyValue s)(symbol \<mapsto> dict_get (buyValue s) symbol 0 + tp * quantity)\<rparr>
                else s\<lparr>currQuantity := (currQuantity s)(symbol \<mapsto> dict_get (currQuantity s) symbol 0 - quantity),
                       sellValue := (sellValue s)(symbol \<mapsto> dict_get (sellValue s) symbol 0 + tp * quantity)\<rparr>);
          s2 = s1\<lparr>trades := trades s1 @ [\<lparr>fsymbol = symbol, fside = side, fquantity = quantity, fprice = tp\<rparr>]\<rparr>
      in s2\<lparr>strategy := onTradeConfirmation symbol side quantity tp (strategy s2)\<rparr>)"

section \<open>Strings, rounding and local time\<close>

text \<open>\<^verbatim>\<open>s.startswith(p)\<close> and the substring test \<^verbatim>\<open>p in s\<close>.\<close>

fun starts_with :: "string \<Rightarrow> string \<Rightarrow> bool" where
  "starts_with [] s = True"
| "starts_with (p # ps) [] = False"
| "starts_with (p # ps) (c # cs) = (p = c \<and> starts_with ps cs)"

fun str_contains :: "string \<Rightarrow> string \<Rightarrow> bool" where
  "str_contains p [] = (p = [])"
| "str_contains p (c # cs) = (starts_with p (c # cs) \<or> str_contains p cs)"

text \<open>
  \<^verbatim>\<open>re.search(r'C-BTC-\d+-(\d+)', sym)\<close>, returning group 1 of the leftmost match.
  At a given start the literal \<^verbatim>\<open>C-BTC-\<close> must be followed by a run of digits; the
  run has to be taken whole, since the next character must be \<^verbatim>\<open>-\<close>; the group
  is greedy and nothing follows it, so it is the whole run of digits after the dash.
  \<^verbatim>\<open>\d\<close> is read as an ASCII digit.
\<close>

definition is_digit :: "char \<Rightarrow> bool" where
  "is_digit c = (c \<in> set ''0123456789'')"

definition match_here :: "string \<Rightarrow> string option" where
  "match_here s =
     (if starts_with ''C-BTC-'' s then
        (let r = drop 6 s; d1 = takeWhile is_digit r; r1 = dropWhile is_digit r in
         if d1 \<noteq> [] \<and> starts_with ''-'' r1 then
           (let d2 = takeWhile is_digit (tl r1) in if d2 \<noteq> [] then Some d2 else None)
         else None)
      else None)"

fun re_search :: "string \<Rightarrow> string option" where
  "re_search [] = None"
| "re_search (c # cs) =
     (case match_here (c # cs) of Some g \<Rightarrow> Some g | None \<Rightarrow> re_search cs)"

text \<open>The order of \<^verbatim>\<open>str\<close>: lexicographic by code point, a proper prefix first.\<close>

fun str_less :: "string \<Rightarrow> string \<Rightarrow> bool" where
  "str_less [] [] = False"
| "str_less [] (y # ys) = True"
| "str_less (x # xs) [] = False"
| "str_less (x # xs) (y # ys) =
     (if x = y then str_less xs ys else (of_char x :: nat) < of_char y)"

text \<open>\<^verbatim>\<open>sorted(expiries)[0]\<close> of a non-empty collection: its least element.\<close>

fun earliest :: "string list \<Rightarrow> string" where
  "earliest [] = []"
| "earliest (x # xs) = foldl (\<lambda>a b. if str_less b a then b else a) x xs"

text \<open>\<^verbatim>\<open>str\<close> of an \<^verbatim>\<open>int\<close>, as the f-string formats the strike.\<close>

fun str_nat :: "nat \<Rightarrow> string" where
  "str_nat n =
     (if n < 10 then [''0123456789'' ! n]
      else str_nat (n div 10) @ [''0123456789'' ! (n mod 10)])"

declare str_nat.simps [simp del]

definition str_int :: "int \<Rightarrow> string" where
  "str_int i = (if i < 0 then ''-'' @ str_nat (nat (- i)) else str_nat (nat i))"

text \<open>\<^verbatim>\<open>round(x)\<close> of Python 3: to the nearest integer, a tie to the even one.\<close>

definition py_round :: "real \<Rightarrow> int" where
  "py_round x =
     (let f = \<lfloor>x\<rfloor>; d = x - of_int f in
      if d < 1 / 2 then f
      else if 1 / 2 < d then f + 1
      else if even f then f else f + 1)"

text \<open>\<^verbatim>\<open>round(price / 1000) * 1000\<close>.\<close>

definition atm_strike :: "real \<Rightarrow> int" where
  "atm_strike price = py_round (price / 1000) * 1000"

text \<open>
  \<^verbatim>\<open>dt.hour\<close> and \<^verbatim>\<open>dt.minute\<close> of
  \<^verbatim>\<open>datetime.fromtimestamp(time)\<close>, for a timestamp the platform can convert.
\<close>

definition dt_hour :: "host \<Rightarrow> int \<Rightarrow> int" where
  "dt_hour h t = ((t + utcoffset h t) div 3600) mod 24"

definition dt_minute :: "host \<Rightarrow> int \<Rightarrow> int" where
  "dt_minute h t = ((t + utcoffset h t) div 60) mod 60"

section \<open>The strategy\<close>

text \<open>
  The identifiers \<^verbatim>\<open>f"C-BTC-{atm_strike}-{expiry}"\<close> and
  \<^verbatim>\<open>f"P-BTC-{atm_strike}-{expiry}"\<close>.
\<close>

definition call_name :: "int \<Rightarrow> string \<Rightarrow> string" where
  "call_name strike expiry = ''C-BTC-'' @ str_int strike @ ''-'' @ expiry"

definition put_name :: "int \<Rightarrow> string \<Rightarrow> string" where
  "put_name strike expiry = ''P-BTC-'' @ str_int strike @ ''-'' @ expiry"

text \<open>
  The expiries that the loop over \<^verbatim>\<open>config.symbols\<close> collects. The source
  keeps them in a set, of which it uses the emptiness and the least element; neither depends
  on repetitions or on the order of the list.
\<close>

definition expiries_of :: "config \<Rightarrow> string list" where
  "expiries_of cfg = List.map_filter re_search (symbols cfg)"

text \<open>
  The first block of \<^verbatim>\<open>Strategy.onMarketData\<close>, the entry. The boolean is True
  when the block ends in \<^verbatim>\<open>return\<close> (no expiry found), which leaves the method.
\<close>

definition entry_block :: "config \<Rightarrow> host \<Rightarrow> row \<Rightarrow> simulator \<Rightarrow> bool \<times> simulator" where
  "entry_block cfg h r s =
     (let time = timestamp r; symbol = Symbol r; price = close r in
      if \<not> in_position (strategy s) \<and> str_contains ''BTCUSDT'' symbol then
        if dt_hour h time = 13 \<and> dt_minute h time = 0 then
          (let s1 = s\<lparr>strategy := (strategy s)\<lparr>entry_price := Some price\<rparr>\<rparr>;
               strike = atm_strike price;
               expiries = expiries_of cfg in
           if expiries = [] then (True, s1)
           else
             (let expiry = earliest expiries;
                  call = call_name strike expiry;
                  put = put_name strike expiry;
                  s2 = s1\<lparr>strategy := (strategy s1)\<lparr>call_strike := Some call, put_strike := Some put\<rparr>\<rparr>
              in
              if call \<in> set (symbols cfg) \<and> put \<in> set (symbols cfg) then
                (let s3 = onOrder (Some call) ''sell'' (1 / 10)
                            (dict_get (currentPrice s2) (Some call) price) s2;
                     s4 = onOrder (Some put) ''sell'' (1 / 10)
                            (dict_get (currentPrice s3) (Some put) price) s3
                 in (False, s4\<lparr>strategy := (strategy s4)\<lparr>in_position := True\<rparr>\<rparr>))
              else (False, s2)))
        else (False, s)
      else (False, s))"

text \<open>
  The exit condition. The quotient is evaluated first: with no entry price stored the
  subtraction raises \<^verbatim>\<open>TypeError\<close>, with an entry price of zero the division raises
  \<^verbatim>\<open>ZeroDivisionError\<close>.
\<close>

definition exit_condition :: "real \<Rightarrow> real \<Rightarrow> real \<Rightarrow> bool" where
  "exit_condition fut_price entry realized =
     (\<bar>fut_price - entry\<bar> / entry > 1 / 100 \<or> realized \<ge> 500 \<or> realized \<le> - 500)"

text \<open>The second block of \<^verbatim>\<open>Strategy.onMarketData\<close>, the exit.\<close>

definition exit_block :: "row \<Rightarrow> simulator \<Rightarrow> error + simulator" where
  "exit_block r s =
     (if in_position (strategy s) then
        (let fut_price = dict_get (currentPrice s) (Some ''BTCUSDT'') 0 in
         case entry_price (strategy s) of
           None \<Rightarrow> Inl TypeError
         | Some entry \<Rightarrow>
             if entry = 0 then Inl ZeroDivisionError
             else if exit_condition fut_price entry (pnl (strategy s)) then
               (let s1 = onOrder (call_strike (strategy s)) ''buy'' (1 / 10)
                           (dict_get (currentPrice s) (call_strike (strategy s)) (close r)) s;
                    s2 = onOrder (put_strike (strategy s1)) ''buy'' (1 / 10)
                           (dict_get (currentPrice s1) (put_strike (strategy s1)) (close r)) s1
                in Inr (s2\<lparr>strategy := (strategy s2)\<lparr>in_position := False\<rparr>\<rparr>))
             else Inr s)
      else Inr s)"

definition onMarketData :: "config \<Rightarrow> host \<Rightarrow> row \<Rightarrow> simulator \<Rightarrow> error + simulator" where
  "onMarketData cfg h r s =
     (case entry_block cfg h r s of
        (True, s1) \<Rightarrow> Inr s1
      | (False, s1) \<Rightarrow> exit_block r s1)"

section \<open>The simulation loop\<close>

text \<open>The inner loop of \<^verbatim>\<open>startSimulation\<close> over \<^verbatim>\<open>config.symbols\<close>.\<close>

definition symbol_pnl :: "simulator \<Rightarrow> symbol \<Rightarrow> real \<Rightarrow> real" where
  "symbol_pnl s symbol last_price =
     dict_get (sellValue s) symbol 0 - dict_get (buyValue s) symbol 0
       + dict_get (currQuantity s) symbol 0 * last_price"

definition total_pnl :: "config \<Rightarrow> simulator \<Rightarrow> real" where
  "total_pnl cfg s =
     foldl (\<lambda>total symbol. total + symbol_pnl s (Some symbol) (dict_get (currentPrice s) (Some symbol) 0))
       0 (symbols cfg)"

text \<open>
  \<^verbatim>\<open>startSimulation\<close>: the loop over the rows of the frame. An exception of
  \<^verbatim>\<open>onMarketData\<close> ends the run before anything is written; otherwise the result
  holds the \<open>pnl_log\<close> that is saved as \<^verbatim>\<open>output/timestamped_pnl.csv\<close>.
\<close>

fun startSimulation :: "config \<Rightarrow> host \<Rightarrow> row list \<Rightarrow> simulator \<Rightarrow> error + simulator" where
  "startSimulation cfg h [] s = Inr s"
| "startSimulation cfg h (r # rs) s =
     (let s1 = s\<lparr>currentPrice := (currentPrice s)(Some (Symbol r) \<mapsto> close r)\<rparr> in
      case onMarketData cfg h r s1 of
        Inl e \<Rightarrow> Inl e
      | Inr s2 \<Rightarrow>
          startSimulation cfg h rs
            (s2\<lparr>pnl_log := pnl_log s2 @ [(timestamp r, total_pnl cfg s2)]\<rparr>))"

section \<open>Loading the data\<close>

text \<open>
  The part of pandas that \<^verbatim>\<open>readData\<close> uses. A frame has column labels and rows;
  \<^verbatim>\<open>pd.DataFrame()\<close> has neither. \<^verbatim>\<open>sort_values(by="timestamp")\<close> raises
  \<^verbatim>\<open>KeyError\<close> on a frame without that column, and sorts ascending otherwise (the
  order among equal timestamps is not used by any statement below; the model keeps the
  order of the input there).
\<close>

record dataframe =
  columns :: "string list"
  rows :: "row list"

definition DataFrame :: dataframe where
  "DataFrame = \<lparr>columns = [], rows = []\<rparr>"

definition pd_concat :: "dataframe list \<Rightarrow> dataframe" where
  "pd_concat fs = \<lparr>columns = remdups (concat (map columns fs)), rows = concat (map rows fs)\<rparr>"

definition sort_values :: "string \<Rightarrow> dataframe \<Rightarrow> error + dataframe" where
  "sort_values by df =
     (if by \<notin> set (columns df) then Inl (KeyError by)
      else Inr (df\<lparr>rows := sort_key timestamp (rows df)\<rparr>))"

text \<open>
  \<^verbatim>\<open>pd.read_csv(file_path)\<close> followed by \<^verbatim>\<open>df["Symbol"] = symbol\<close>, for a
  file with the columns \<^verbatim>\<open>timestamp\<close> and \<^verbatim>\<open>close\<close>.
\<close>

definition read_csv :: "string \<Rightarrow> (int \<times> real) list \<Rightarrow> dataframe" where
  "read_csv symbol content =
     \<lparr>columns = [''timestamp'', ''close'', ''Symbol''],
      rows = map (\<lambda>(t, c). \<lparr>timestamp = t, Symbol = symbol, close = c\<rparr>) content\<rparr>"

definition file_path :: "string \<Rightarrow> string \<Rightarrow> string" where
  "file_path date symbol = ''data/'' @ date @ ''/'' @ ''MARK:'' @ symbol @ ''.csv''"

definition data_frames :: "config \<Rightarrow> host \<Rightarrow> dataframe list" where
  "data_frames cfg h =
     concat (map (\<lambda>date.
       List.map_filter (\<lambda>symbol.
         case files h (file_path date symbol) of
           None \<Rightarrow> None
         | Some content \<Rightarrow> Some (read_csv symbol content)) (symbols cfg)) (dates cfg))"

definition readData :: "config \<Rightarrow> host \<Rightarrow> error + dataframe" where
  "readData cfg h =
     (let fs = data_frames cfg h;
          df = (if fs \<noteq> [] then pd_concat fs else DataFrame)
      in sort_values ''timestamp'' df)"

text \<open>The script: \<^verbatim>\<open>sim = Simulator(); sim.readData(); sim.startSimulation()\<close>.\<close>

definition main :: "config \<Rightarrow> host \<Rightarrow> error + simulator" where
  "main cfg h =
     (case readData cfg h of
        Inl e \<Rightarrow> Inl e
      | Inr df \<Rightarrow> startSimulation cfg h (rows df) Simulator_init)"

section \<open>Sequences of orders and their fills\<close>

text \<open>An order as \<^verbatim>\<open>onOrder\<close> receives it: symbol, side, quantity, reference price.\<close>

type_synonym order = "symbol \<times> string \<times> real \<times> real"

fun submit :: "order list \<Rightarrow> simulator \<Rightarrow> simulator" where
  "submit [] s = s"
| "submit ((symbol, side, quantity, price) # os) s =
     submit os (onOrder symbol side quantity price s)"

text \<open>The fill that an order produces.\<close>

definition fill_of :: "order \<Rightarrow> fill" where
  "fill_of ord =
     (case ord of (symbol, side, quantity, price) \<Rightarrow>
        \<lparr>fsymbol = symbol, fside = side, fquantity = quantity,
         fprice = trade_price side price\<rparr>)"

text \<open>
  The signed cash flow of a fill marked at the price \<open>p\<close>: a sell brings in its notional
  and owes the quantity at \<open>p\<close>, a buy pays its notional and holds the quantity at \<open>p\<close>.
\<close>

definition cash_flow :: "fill \<Rightarrow> real \<Rightarrow> real" where
  "cash_flow f p =
     (if fside f = ''buy'' then fquantity f * p - fprice f * fquantity f
      else fprice f * fquantity f - fquantity f * p)"

definition fills_of :: "symbol \<Rightarrow> fill list \<Rightarrow> fill list" where
  "fills_of symbol fs = filter (\<lambda>f. fsymbol f = symbol) fs"

text \<open>What the confirmation of a fill adds to the accumulator of the strategy.\<close>

definition confirmation_value :: "fill \<Rightarrow> real" where
  "confirmation_value f =
     (if fside f = ''buy'' then - (fquantity f * fprice f) else fquantity f * fprice f)"

section \<open>Example inputs\<close>

text \<open>
  A universe that lists the straddle at strike 50000, one that lists only strike 51000, a
  host on UTC with no data files, and a tick of the trigger instrument at 13:00:00 UTC on
  2024-01-01.
\<close>

definition example_config :: config where
  "example_config =
     \<lparr>symbols = [''BTCUSDT'', ''C-BTC-50000-240101'', ''P-BTC-50000-240101''],
      dates = [''20240101'']\<rparr>"

definition unlisted_config :: config where
  "unlisted_config =
     \<lparr>symbols = [''BTCUSDT'', ''C-BTC-51000-240101'', ''P-BTC-51000-240101''],
      dates = [''20240101'']\<rparr>"

definition utc_host :: host where
  "utc_host = \<lparr>utcoffset = (\<lambda>t. 0), files = Map.empty\<rparr>"

definition trigger_row :: row where
  "trigger_row = \<lparr>timestamp = 1704114000, Symbol = ''BTCUSDT'', close = 50050\<rparr>"

text \<open>
  States of the simulator: flat with the trigger price just recorded; in position after the
  trigger instrument moved by 1.2 percent; in position after it moved by 0.2 percent. And a
  tick of an option.
\<close>

definition entered_state :: simulator where
  "entered_state = Simulator_init\<lparr>currentPrice := [Some ''BTCUSDT'' \<mapsto> 50050]\<rparr>"

definition moved_state :: simulator where
  "moved_state =
     Simulator_init
       \<lparr>currentPrice := [Some ''BTCUSDT'' \<mapsto> 50600],
        strategy := \<lparr>entry_price = Some 50000, call_strike = Some ''C-BTC-50000-240101'',
                     put_strike = Some ''P-BTC-50000-240101'', in_position = True, pnl = 100\<rparr>\<rparr>"

definition calm_state :: simulator where
  "calm_state = moved_state\<lparr>currentPrice := [Some ''BTCUSDT'' \<mapsto> 50100]\<rparr>"

definition option_row :: row where
  "option_row = \<lparr>timestamp = 1704114060, Symbol = ''C-BTC-50000-240101'', close = 1200\<rparr>"

text \<open>A host on UTC with two data files whose rows interleave in time.\<close>

definition data_host :: host where
  "data_host =
     \<lparr>utcoffset = (\<lambda>t. 0),
      files = [''data/20240101/MARK:BTCUSDT.csv'' \<mapsto> [(1704114000, 50050), (1704114120, 50100)],
               ''data/20240101/MARK:C-BTC-50000-240101.csv'' \<mapsto> [(1704114060, 1200)]]\<rparr>"

text \<open>
  A universe that lists the straddle at strike 0 with a trigger tick at the price 0, a flat
  state in which both options are quoted at 5000, and a state in position whose stored entry
  price is 0 and whose accumulator is 1000.
\<close>

definition zero_config :: config where
  "zero_config =
     \<lparr>symbols = [''BTCUSDT'', ''C-BTC-0-240101'', ''P-BTC-0-240101''],
      dates = [''20240101'']\<rparr>"

definition zero_row :: row where
  "zero_row = \<lparr>timestamp = 1704114000, Symbol = ''BTCUSDT'', close = 0\<rparr>"

definition zero_flat_state :: simulator where
  "zero_flat_state =
     Simulator_init
       \<lparr>currentPrice := [Some ''C-BTC-0-240101'' \<mapsto> 5000, Some ''P-BTC-0-240101'' \<mapsto> 5000,
                         Some ''BTCUSDT'' \<mapsto> 0]\<rparr>"

definition zero_entry_state :: simulator where
  "zero_entry_state =
     Simulator_init
       \<lparr>currentPrice := [Some ''BTCUSDT'' \<mapsto> 0],
        strategy := \<lparr>entry_price = Some 0, call_strike = Some ''C-BTC-0-240101'',
                     put_strike = Some ''P-BTC-0-240101'', in_position = True, pnl = 1000\<rparr>\<rparr>"

text \<open>
  A universe with a second instrument whose symbol contains \<^verbatim>\<open>BTCUSDT\<close>; a state in
  position, entered at 50010, in which \<^verbatim>\<open>BTCUSDT\<close> is at 50000 and
  \<^verbatim>\<open>BTCUSDT-PERP\<close> at 51000; a tick of \<^verbatim>\<open>BTCUSDT-PERP\<close>; and a feed in
  which a tick of \<^verbatim>\<open>BTCUSDT-PERP\<close> at 13:00 fires the entry.
\<close>

definition perp_config :: config where
  "perp_config =
     \<lparr>symbols = [''BTCUSDT'', ''BTCUSDT-PERP'', ''C-BTC-50000-240101'', ''P-BTC-50000-240101''],
      dates = [''20240101'']\<rparr>"

definition perp_state :: simulator where
  "perp_state =
     Simulator_init
       \<lparr>currentPrice := [Some ''BTCUSDT'' \<mapsto> 50000, Some ''BTCUSDT-PERP'' \<mapsto> 51000],
        strategy := \<lparr>entry_price = Some 50010, call_strike = Some ''C-BTC-50000-240101'',
                     put_strike = Some ''P-BTC-50000-240101'', in_position = True, pnl = 100\<rparr>\<rparr>"

definition perp_row :: row where
  "perp_row = \<lparr>timestamp = 1704114060, Symbol = ''BTCUSDT-PERP'', close = 51000\<rparr>"

definition perp_rows :: "row list" where
  "perp_rows =
     [\<lparr>timestamp = 1704113940, Symbol = ''C-BTC-50000-240101'', close = 1000\<rparr>,
      \<lparr>timestamp = 1704113941, Symbol = ''P-BTC-50000-240101'', close = 1000\<rparr>,
      \<lparr>timestamp = 1704113942, Symbol = ''BTCUSDT'', close = 50000\<rparr>,
      \<lparr>timestamp = 1704114000, Symbol = ''BTCUSDT-PERP'', close = 50010\<rparr>,
      \<lparr>timestamp = 1704114060, Symbol = ''BTCUSDT-PERP'', close = 51000\<rparr>]"

section \<open>An invariant of the strategy\<close>

text \<open>
  A strategy that is in position has stored a non-zero entry price; then the exit check
  raises nothing.
\<close>

definition entry_recorded :: "simulator \<Rightarrow> bool" where
  "entry_recorded s =
     (if in_position (strategy s)
      then (case entry_price (strategy s) of None \<Rightarrow> False | Some e \<Rightarrow> e \<noteq> 0)
      else True)"

section \<open>Basic facts about the execution engine\<close>

lemma trades_onOrder:
  "trades (onOrder sy side q pr s) = trades s @ [fill_of (sy, side, q, pr)]"
  by (simp add: onOrder_def Let_def fill_of_def)

lemma currentPrice_onOrder [simp]: "currentPrice (onOrder sy side q pr s) = currentPrice s"
  by (simp add: onOrder_def Let_def)

lemma pnl_log_onOrder [simp]: "pnl_log (onOrder sy side q pr s) = pnl_log s"
  by (simp add: onOrder_def Let_def)

lemma strategy_onOrder:
  "strategy (onOrder sy side q pr s) =
     (strategy s)\<lparr>pnl := pnl (strategy s) + confirmation_value (fill_of (sy, side, q, pr))\<rparr>"
  by (simp add: onOrder_def Let_def onTradeConfirmation_def confirmation_value_def fill_of_def)

lemma symbol_pnl_onOrder:
  "symbol_pnl (onOrder sy side q pr s) symbol p =
     symbol_pnl s symbol p +
       (if sy = symbol then cash_flow (fill_of (sy, side, q, pr)) p else 0)"
  by (simp add: symbol_pnl_def onOrder_def Let_def dict_get_def cash_flow_def fill_of_def
        algebra_simps)

lemma trades_submit: "trades (submit os s) = trades s @ map fill_of os"
  by (induction os s rule: submit.induct) (simp_all add: trades_onOrder)

lemma symbol_pnl_submit:
  "symbol_pnl (submit os s) symbol p =
     symbol_pnl s symbol p + (\<Sum>f\<leftarrow>fills_of symbol (map fill_of os). cash_flow f p)"
proof (induction os s rule: submit.induct)
  case (1 s)
  show ?case by (simp add: fills_of_def)
next
  case (2 sy side q pr os s)
  show ?case
    by (simp add: "2.IH" symbol_pnl_onOrder fills_of_def fill_of_def)
qed

section \<open>Ledger conservation\<close>

text \<open>
  C1. Submit any finite sequence of orders to a fresh simulator. The fills it produces are
  the fills of the orders, in order, and for every symbol and every price \<open>p\<close> the
  per-symbol PnL (sell notional minus buy notional plus net quantity marked at \<open>p\<close>) is
  the sum, over the fills of that symbol, of their signed cash flows at \<open>p\<close>.
\<close>

theorem ledger_conservation:
  "trades (submit os Simulator_init) = map fill_of os \<and>
   symbol_pnl (submit os Simulator_init) symbol p =
     (\<Sum>f\<leftarrow>fills_of symbol (trades (submit os Simulator_init)). cash_flow f p)"
  by (simp add: trades_submit symbol_pnl_submit)
     (simp add: Simulator_init_def symbol_pnl_def dict_get_def)

section \<open>Slippage direction\<close>

text \<open>
  C6 does not hold at reference prices that are not positive: a buy at the
  reference price -100 executes below it, a sell at -100 executes above it, and a buy at the
  reference price 0 executes at exactly 0 although the slippage rate is not 0.
\<close>

theorem slippage_direction_counterexample:
  "fprice (last (trades (onOrder (Some ''BTCUSDT'') ''buy'' 1 (- 100) Simulator_init))) < - 100 \<and>
   - 100 < fprice (last (trades (onOrder (Some ''BTCUSDT'') ''sell'' 1 (- 100) Simulator_init))) \<and>
   fprice (last (trades (onOrder (Some ''BTCUSDT'') ''buy'' 1 0 Simulator_init))) = 0 \<and>
   slippage \<noteq> 0"
  by (simp add: trades_onOrder fill_of_def trade_price_def slippage_def)

text \<open>
  C6 (amended). For every fill of an order whose reference price is not negative: a buy
  executes at or above the reference price, any other side (a sell) at or below it, and the
  executed price equals the reference price exactly when the reference price is 0 (the
  slippage rate is the constant 0.0001).
\<close>

theorem slippage_direction:
  assumes "0 \<le> price"
    and "f = last (trades (onOrder symbol side quantity price s))"
  shows "(fside f = ''buy'' \<longrightarrow> price \<le> fprice f) \<and>
         (fside f \<noteq> ''buy'' \<longrightarrow> fprice f \<le> price) \<and>
         (fprice f = price \<longleftrightarrow> price = 0)"
proof -
  have f: "fside f = side" "fprice f = trade_price side price"
    using assms(2) by (simp_all add: trades_onOrder fill_of_def)
  show ?thesis
  proof (cases "side = ''buy''")
    case True
    then have "fprice f = price + price * slippage"
      using f by (simp add: trade_price_def algebra_simps)
    moreover have "0 \<le> price * slippage"
      using assms(1) by (simp add: slippage_def)
    moreover have "price * slippage = 0 \<longleftrightarrow> price = 0"
      by (simp add: slippage_def)
    ultimately show ?thesis using True f by auto
  next
    case False
    then have "fprice f = price - price * slippage"
      using f by (simp add: trade_price_def algebra_simps)
    moreover have "0 \<le> price * slippage"
      using assms(1) by (simp add: slippage_def)
    moreover have "price * slippage = 0 \<longleftrightarrow> price = 0"
      by (simp add: slippage_def)
    ultimately show ?thesis using False f by auto
  qed
qed

theorem slippage_direction_witness:
  "(0::real) \<le> 100 \<and>
   fside (last (trades (onOrder (Some ''BTCUSDT'') ''buy'' 1 100 Simulator_init))) = ''buy'' \<and>
   (100::real) \<le> fprice (last (trades (onOrder (Some ''BTCUSDT'') ''buy'' 1 100 Simulator_init))) \<and>
   fprice (last (trades (onOrder (Some ''BTCUSDT'') ''buy'' 1 100 Simulator_init))) \<noteq> 100"
  using slippage_direction [of 100 _ "Some ''BTCUSDT''" "''buy''" 1 Simulator_init, OF _ refl]
  by (simp add: trades_onOrder fill_of_def)

section \<open>The notional accumulators\<close>

text \<open>
  C7 does not hold without a condition on the signs: a buy of quantity -1 at the price 100 takes the buy
  accumulator of its symbol below its previous value, and so does a sell of quantity 1 at
  the price -100 with the sell accumulator.
\<close>

theorem accumulators_counterexample:
  "dict_get (buyValue (onOrder (Some ''BTCUSDT'') ''buy'' (- 1) 100 Simulator_init)) (Some ''BTCUSDT'') 0
     < dict_get (buyValue Simulator_init) (Some ''BTCUSDT'') 0 \<and>
   dict_get (sellValue (onOrder (Some ''BTCUSDT'') ''sell'' 1 (- 100) Simulator_init)) (Some ''BTCUSDT'') 0
     < dict_get (sellValue Simulator_init) (Some ''BTCUSDT'') 0"
  by (simp add: onOrder_def Let_def dict_get_def Simulator_init_def trade_price_def slippage_def)

lemma notional_nonneg: "0 \<le> quantity * price \<Longrightarrow> 0 \<le> trade_price side price * quantity"
proof -
  assume a: "0 \<le> quantity * price"
  have e: "trade_price side price * quantity =
          (quantity * price) * (if side = ''buy'' then 1 + slippage else 1 - slippage)"
    by (simp add: trade_price_def)
  have "0 \<le> (if side = ''buy'' then 1 + slippage else 1 - slippage)"
    by (simp add: slippage_def)
  then have "0 \<le> (quantity * price) * (if side = ''buy'' then 1 + slippage else 1 - slippage)"
    using a by (rule mult_nonneg_nonneg [rotated])
  then show ?thesis by (simp only: e)
qed

text \<open>
  C7 (amended). An order whose quantity and reference price have a product that is not
  negative (a positive quantity at a non-negative price in particular) reduces neither the
  buy nor the sell accumulator of any symbol.
\<close>

theorem accumulators_monotone:
  assumes "0 \<le> quantity * price"
  shows "dict_get (buyValue s) k 0 \<le> dict_get (buyValue (onOrder symbol side quantity price s)) k 0 \<and>
         dict_get (sellValue s) k 0 \<le> dict_get (sellValue (onOrder symbol side quantity price s)) k 0"
proof (cases "side = ''buy''")
  case True
  then show ?thesis
    using notional_nonneg [OF assms, of "''buy''"]
    by (simp add: onOrder_def Let_def dict_get_def)
next
  case False
  then show ?thesis
    using notional_nonneg [OF assms, of side]
    by (simp add: onOrder_def Let_def dict_get_def)
qed

theorem accumulators_monotone_witness:
  "(0::real) \<le> (1 / 10) * 3000 \<and>
   dict_get (sellValue Simulator_init) (Some ''C-BTC-50000-240101'') 0
     \<le> dict_get (sellValue (onOrder (Some ''C-BTC-50000-240101'') ''sell'' (1 / 10) 3000 Simulator_init))
          (Some ''C-BTC-50000-240101'') 0"
  using accumulators_monotone [of "1 / 10" 3000 Simulator_init "Some ''C-BTC-50000-240101''"
      "Some ''C-BTC-50000-240101''" "''sell''"]
  by simp

section \<open>Facts about the strategy\<close>

lemma entry_block_in_position:
  "in_position (strategy s) \<Longrightarrow> entry_block cfg h r s = (False, s)"
  by (simp add: entry_block_def)

lemma entry_block_skipped:
  assumes "\<not> in_position (strategy s)"
    and "call_name (atm_strike (close r)) (earliest (expiries_of cfg)) \<notin> set (symbols cfg) \<or>
         put_name (atm_strike (close r)) (earliest (expiries_of cfg)) \<notin> set (symbols cfg)"
  shows "\<exists>b s'. entry_block cfg h r s = (b, s') \<and> trades s' = trades s \<and>
           \<not> in_position (strategy s') \<and> buyValue s' = buyValue s \<and>
           sellValue s' = sellValue s \<and> currQuantity s' = currQuantity s"
  using assms by (auto simp add: entry_block_def Let_def)

lemma exit_block_flat: "\<not> in_position (strategy s) \<Longrightarrow> exit_block r s = Inr s"
  by (simp add: exit_block_def)

lemma exit_block_frame:
  assumes "exit_block r s = Inr s'"
  shows "\<exists>new. trades s' = trades s @ new \<and>
           pnl (strategy s') = pnl (strategy s) + (\<Sum>f\<leftarrow>new. confirmation_value f) \<and>
           pnl_log s' = pnl_log s"
  using assms
  by (auto simp add: exit_block_def Let_def trades_onOrder strategy_onOrder
        split: if_splits option.splits)

lemma entry_block_frame:
  assumes "entry_block cfg h r s = (b, s')"
  shows "\<exists>new. trades s' = trades s @ new \<and>
           pnl (strategy s') = pnl (strategy s) + (\<Sum>f\<leftarrow>new. confirmation_value f) \<and>
           pnl_log s' = pnl_log s"
  using assms
  by (auto simp add: entry_block_def Let_def trades_onOrder strategy_onOrder
        split: if_splits)

lemma onMarketData_frame:
  assumes "onMarketData cfg h r s = Inr s'"
  shows "\<exists>new. trades s' = trades s @ new \<and>
           pnl (strategy s') = pnl (strategy s) + (\<Sum>f\<leftarrow>new. confirmation_value f) \<and>
           pnl_log s' = pnl_log s"
proof -
  obtain b s1 where e: "entry_block cfg h r s = (b, s1)"
    by (cases "entry_block cfg h r s") 
  from entry_block_frame [OF e] obtain n1 where
    n1: "trades s1 = trades s @ n1"
      "pnl (strategy s1) = pnl (strategy s) + (\<Sum>f\<leftarrow>n1. confirmation_value f)"
      "pnl_log s1 = pnl_log s" by blast
  show ?thesis
  proof (cases b)
    case True
    then have "s' = s1" using assms e by (simp add: onMarketData_def)
    then show ?thesis using n1 by blast
  next
    case False
    then have "exit_block r s1 = Inr s'" using assms e by (simp add: onMarketData_def)
    from exit_block_frame [OF this] obtain n2 where
      n2: "trades s' = trades s1 @ n2"
        "pnl (strategy s') = pnl (strategy s1) + (\<Sum>f\<leftarrow>n2. confirmation_value f)"
        "pnl_log s' = pnl_log s1" by blast
    have "trades s' = trades s @ (n1 @ n2)" using n1 n2 by simp
    moreover have "pnl (strategy s') = pnl (strategy s) + (\<Sum>f\<leftarrow>n1 @ n2. confirmation_value f)"
      using n1 n2 by simp
    ultimately show ?thesis using n1 n2 by metis
  qed
qed

lemma startSimulation_frame:
  "startSimulation cfg h rs s = Inr s' \<Longrightarrow>
     \<exists>new. trades s' = trades s @ new \<and>
       pnl (strategy s') = pnl (strategy s) + (\<Sum>f\<leftarrow>new. confirmation_value f)"
proof (induction rs arbitrary: s)
  case Nil
  then show ?case by simp
next
  case (Cons r rs)
  let ?s1 = "s\<lparr>currentPrice := (currentPrice s)(Some (Symbol r) \<mapsto> close r)\<rparr>"
  from Cons.prems obtain s2 where
    s2: "onMarketData cfg h r ?s1 = Inr s2"
    and rest: "startSimulation cfg h rs (s2\<lparr>pnl_log := pnl_log s2 @ [(timestamp r, total_pnl cfg s2)]\<rparr>) = Inr s'"
    by (auto simp add: Let_def split: sum.splits)
  from onMarketData_frame [OF s2] obtain n1 where
    n1: "trades s2 = trades s @ n1"
      "pnl (strategy s2) = pnl (strategy s) + (\<Sum>f\<leftarrow>n1. confirmation_value f)" by auto
  from Cons.IH [OF rest] obtain n2 where
    n2: "trades s' = trades s2 @ n2"
      "pnl (strategy s') = pnl (strategy s2) + (\<Sum>f\<leftarrow>n2. confirmation_value f)" by auto
  have "trades s' = trades s @ (n1 @ n2)" using n1 n2 by simp
  moreover have "pnl (strategy s') = pnl (strategy s) + (\<Sum>f\<leftarrow>n1 @ n2. confirmation_value f)"
    using n1 n2 by simp
  ultimately show ?case by blast
qed

text \<open>The run raises nothing when no price is zero, and logs one entry per row.\<close>

lemma entry_recorded_onOrder [simp]:
  "entry_recorded (onOrder sy side q pr s) = entry_recorded s"
  by (simp add: entry_recorded_def strategy_onOrder)

lemma entry_block_recorded:
  assumes "close r \<noteq> 0" and "entry_recorded s" and "entry_block cfg h r s = (b, s')"
  shows "entry_recorded s'"
  using assms
  by (auto simp add: entry_block_def Let_def entry_recorded_def strategy_onOrder
        split: if_splits)

lemma exit_block_total:
  assumes "entry_recorded s"
  shows "\<exists>s'. exit_block r s = Inr s' \<and> entry_recorded s'"
proof (cases "in_position (strategy s)")
  case False
  then show ?thesis using assms by (simp add: exit_block_def)
next
  case True
  then obtain e where e: "entry_price (strategy s) = Some e" "e \<noteq> 0"
    using assms by (auto simp add: entry_recorded_def split: option.splits)
  show ?thesis
  proof (cases "exit_condition (dict_get (currentPrice s) (Some ''BTCUSDT'') 0) e (pnl (strategy s))")
    case False
    then show ?thesis using True e assms by (simp add: exit_block_def)
  next
    case exit: True
    show ?thesis using True e exit
      by (simp add: exit_block_def Let_def entry_recorded_def)
  qed
qed

lemma onMarketData_total:
  assumes "close r \<noteq> 0" and "entry_recorded s"
  shows "\<exists>s'. onMarketData cfg h r s = Inr s' \<and> entry_recorded s'"
proof -
  obtain b s1 where e: "entry_block cfg h r s = (b, s1)"
    by (cases "entry_block cfg h r s")
  have r1: "entry_recorded s1" using entry_block_recorded [OF assms e] .
  show ?thesis
  proof (cases b)
    case True
    then show ?thesis using e r1 by (simp add: onMarketData_def)
  next
    case False
    then show ?thesis using e exit_block_total [OF r1] by (simp add: onMarketData_def)
  qed
qed

lemma startSimulation_total:
  "\<forall>r\<in>set rs. close r \<noteq> 0 \<Longrightarrow> entry_recorded s \<Longrightarrow> \<exists>s'. startSimulation cfg h rs s = Inr s'"
proof (induction rs arbitrary: s)
  case Nil
  then show ?case by simp
next
  case (Cons r rs)
  let ?s1 = "s\<lparr>currentPrice := (currentPrice s)(Some (Symbol r) \<mapsto> close r)\<rparr>"
  have "entry_recorded ?s1" using Cons.prems(2) by (simp add: entry_recorded_def)
  moreover have "close r \<noteq> 0" using Cons.prems(1) by simp
  ultimately obtain s2 where s2: "onMarketData cfg h r ?s1 = Inr s2" "entry_recorded s2"
    using onMarketData_total by blast
  let ?s3 = "s2\<lparr>pnl_log := pnl_log s2 @ [(timestamp r, total_pnl cfg s2)]\<rparr>"
  have "entry_recorded ?s3" using s2(2) by (simp add: entry_recorded_def)
  moreover have "\<forall>r\<in>set rs. close r \<noteq> 0" using Cons.prems(1) by simp
  ultimately obtain s' where "startSimulation cfg h rs ?s3 = Inr s'"
    using Cons.IH by blast
  then show ?case using s2(1) by (simp add: Let_def)
qed

lemma entry_block_recorded_or_zero:
  assumes "entry_recorded s" and "entry_block cfg h r s = (b, s1)"
  shows "entry_recorded s1 \<or>
         (\<not> b \<and> in_position (strategy s1) \<and> entry_price (strategy s1) = Some 0)"
  using assms
  by (auto simp add: entry_block_def Let_def entry_recorded_def strategy_onOrder
        split: if_splits)

lemma exit_block_zero:
  "in_position (strategy s) \<Longrightarrow> entry_price (strategy s) = Some 0 \<Longrightarrow>
     exit_block r s = Inl ZeroDivisionError"
  by (simp add: exit_block_def)

lemma onMarketData_recorded:
  assumes "entry_recorded s" and "onMarketData cfg h r s = Inr s'"
  shows "entry_recorded s'"
proof -
  obtain b s1 where e: "entry_block cfg h r s = (b, s1)"
    by (cases "entry_block cfg h r s")
  from entry_block_recorded_or_zero [OF assms(1) e]
  show ?thesis
  proof
    assume r1: "entry_recorded s1"
    show ?thesis
    proof (cases b)
      case True
      then show ?thesis using assms(2) e r1 by (simp add: onMarketData_def)
    next
      case False
      then have "exit_block r s1 = Inr s'" using assms(2) e by (simp add: onMarketData_def)
      then show ?thesis using exit_block_total [OF r1, of r] by simp
    qed
  next
    assume z: "\<not> b \<and> in_position (strategy s1) \<and> entry_price (strategy s1) = Some 0"
    then have "exit_block r s1 = Inl ZeroDivisionError" by (simp add: exit_block_zero)
    then show ?thesis using assms(2) e z by (simp add: onMarketData_def)
  qed
qed

lemma startSimulation_recorded:
  "entry_recorded s \<Longrightarrow> startSimulation cfg h rs s = Inr s' \<Longrightarrow> entry_recorded s'"
proof (induction rs arbitrary: s)
  case Nil
  then show ?case by simp
next
  case (Cons r rs)
  let ?s1 = "s\<lparr>currentPrice := (currentPrice s)(Some (Symbol r) \<mapsto> close r)\<rparr>"
  from Cons.prems(2) obtain s2 where
    s2: "onMarketData cfg h r ?s1 = Inr s2"
    and rest: "startSimulation cfg h rs (s2\<lparr>pnl_log := pnl_log s2 @ [(timestamp r, total_pnl cfg s2)]\<rparr>) = Inr s'"
    by (auto simp add: Let_def split: sum.splits)
  have "entry_recorded ?s1" using Cons.prems(1) by (simp add: entry_recorded_def)
  from onMarketData_recorded [OF this s2]
  have "entry_recorded (s2\<lparr>pnl_log := pnl_log s2 @ [(timestamp r, total_pnl cfg s2)]\<rparr>)"
    by (simp add: entry_recorded_def)
  from Cons.IH [OF this rest] show ?case .
qed

lemma startSimulation_log:
  "startSimulation cfg h rs s = Inr s' \<Longrightarrow>
     map fst (pnl_log s') = map fst (pnl_log s) @ map timestamp rs"
proof (induction rs arbitrary: s)
  case Nil
  then show ?case by simp
next
  case (Cons r rs)
  let ?s1 = "s\<lparr>currentPrice := (currentPrice s)(Some (Symbol r) \<mapsto> close r)\<rparr>"
  from Cons.prems obtain s2 where
    s2: "onMarketData cfg h r ?s1 = Inr s2"
    and rest: "startSimulation cfg h rs (s2\<lparr>pnl_log := pnl_log s2 @ [(timestamp r, total_pnl cfg s2)]\<rparr>) = Inr s'"
    by (auto simp add: Let_def split: sum.splits)
  from onMarketData_frame [OF s2] have "pnl_log s2 = pnl_log s" by auto
  then show ?case using Cons.IH [OF rest] by simp
qed

lemma init_recorded: "entry_recorded Simulator_init"
  by (simp add: entry_recorded_def Simulator_init_def Strategy_init_def)

lemma reached_entry_nonzero:
  assumes "startSimulation cfg h rs Simulator_init = Inr s" and "in_position (strategy s)"
  shows "\<exists>entry. entry_price (strategy s) = Some entry \<and> entry \<noteq> 0"
  using startSimulation_recorded [OF init_recorded assms(1)] assms(2)
  by (auto simp add: entry_recorded_def split: option.splits)

lemma readData_rows:
  assumes "readData cfg h = Inr df"
  shows "data_frames cfg h \<noteq> [] \<and>
         rows df = sort_key timestamp (concat (map rows (data_frames cfg h)))"
  using assms
  by (auto simp add: readData_def Let_def sort_values_def DataFrame_def pd_concat_def
        split: if_splits)

lemma readData_found:
  assumes "data_frames cfg h \<noteq> []"
  shows "\<exists>df. readData cfg h = Inr df"
proof -
  obtain f fs where c: "data_frames cfg h = f # fs" using assms by (cases "data_frames cfg h") auto
  have "f \<in> set (data_frames cfg h)" using c by simp
  then have "columns f = [''timestamp'', ''close'', ''Symbol'']"
    by (auto simp add: data_frames_def read_csv_def List.map_filter_def split: option.splits)
  then have "''timestamp'' \<in> set (columns (pd_concat (data_frames cfg h)))"
    unfolding c by (simp add: pd_concat_def)
  then show ?thesis using assms by (simp add: readData_def Let_def sort_values_def)
qed

text \<open>The example inputs, evaluated.\<close>

lemma expiries_unlisted: "expiries_of unlisted_config = [''240101'']"
  by (simp add: expiries_of_def unlisted_config_def List.map_filter_simps match_here_def is_digit_def)

lemma expiries_example: "expiries_of example_config = [''240101'']"
  by (simp add: expiries_of_def example_config_def List.map_filter_simps match_here_def is_digit_def)

lemma atm_trigger: "atm_strike (close trigger_row) = 50000"
  by (simp add: trigger_row_def atm_strike_def py_round_def)

lemma names_50000:
  "call_name 50000 ''240101'' = ''C-BTC-50000-240101''"
  "put_name 50000 ''240101'' = ''P-BTC-50000-240101''"
  by (simp_all add: call_name_def put_name_def str_int_def str_nat.simps)

lemma trigger_time:
  "dt_hour utc_host (timestamp trigger_row) = 13"
  "dt_minute utc_host (timestamp trigger_row) = 0"
  "str_contains ''BTCUSDT'' (Symbol trigger_row)"
  by (simp_all add: dt_hour_def dt_minute_def utc_host_def trigger_row_def)

lemma moved_facts:
  "in_position (strategy moved_state)" "entry_price (strategy moved_state) = Some 50000"
  "dict_get (currentPrice moved_state) (Some ''BTCUSDT'') 0 = 50600"
  "pnl (strategy moved_state) = 100" "trades moved_state = []"
  by (simp_all add: moved_state_def Simulator_init_def dict_get_def)

lemma calm_facts:
  "in_position (strategy calm_state)" "entry_price (strategy calm_state) = Some 50000"
  "dict_get (currentPrice calm_state) (Some ''BTCUSDT'') 0 = 50100"
  "pnl (strategy calm_state) = 100"
  by (simp_all add: calm_state_def moved_state_def Simulator_init_def dict_get_def)

lemma trigger_nonzero: "\<forall>r\<in>set [trigger_row]. close r \<noteq> 0"
  by (simp add: trigger_row_def)

lemma moved_exit:
  "exit_condition (dict_get (currentPrice moved_state) (Some ''BTCUSDT'') 0) 50000
     (pnl (strategy moved_state))"
  by (simp add: moved_facts exit_condition_def)

lemma zero_entry_raises:
  "in_position (strategy zero_entry_state)"
  "500 \<le> pnl (strategy zero_entry_state)"
  "onMarketData example_config utc_host option_row zero_entry_state = Inl ZeroDivisionError"
  by (simp_all add: zero_entry_state_def Simulator_init_def onMarketData_def
        entry_block_in_position exit_block_def)

lemma zero_names:
  "expiries_of zero_config = [''240101'']"
  "atm_strike (close zero_row) = 0"
  "call_name 0 ''240101'' = ''C-BTC-0-240101''"
  "put_name 0 ''240101'' = ''P-BTC-0-240101''"
  "dt_hour utc_host (timestamp zero_row) = 13"
  "dt_minute utc_host (timestamp zero_row) = 0"
  "str_contains ''BTCUSDT'' (Symbol zero_row)"
  by (simp_all add: expiries_of_def zero_config_def List.map_filter_simps match_here_def
        is_digit_def zero_row_def atm_strike_def py_round_def call_name_def put_name_def
        str_int_def str_nat.simps dt_hour_def dt_minute_def utc_host_def)

lemma zero_flat_facts:
  "\<not> in_position (strategy zero_flat_state)"
  "''C-BTC-0-240101'' \<in> set (symbols zero_config)"
  "''P-BTC-0-240101'' \<in> set (symbols zero_config)"
  by (simp_all add: zero_flat_state_def Simulator_init_def Strategy_init_def zero_config_def)

lemma zero_tick_raises:
  "onMarketData zero_config utc_host zero_row zero_flat_state = Inl ZeroDivisionError"
  by (simp add: onMarketData_def entry_block_def Let_def zero_names zero_flat_facts
        exit_block_def strategy_onOrder)
    (simp add: zero_row_def)

lemma perp_facts:
  "in_position (strategy perp_state)"
  "entry_price (strategy perp_state) = Some 50010"
  "pnl (strategy perp_state) = 100"
  "dict_get (currentPrice perp_state) (Some ''BTCUSDT'') 0 = 50000"
  "dict_get (currentPrice perp_state) (Some (Symbol perp_row)) 0 = 51000"
  "str_contains ''BTCUSDT'' (Symbol perp_row)"
  by (simp_all add: perp_state_def Simulator_init_def dict_get_def perp_row_def)

lemma perp_stays:
  "onMarketData perp_config utc_host perp_row perp_state = Inr perp_state"
  by (simp add: onMarketData_def entry_block_in_position perp_facts exit_block_def
        exit_condition_def)

lemma perp_expiries: "expiries_of perp_config = [''240101'']"
  by (simp add: expiries_of_def perp_config_def List.map_filter_simps match_here_def is_digit_def)

lemma perp_names:
  "atm_strike 50010 = 50000"
  "call_name 50000 ''240101'' = ''C-BTC-50000-240101''"
  "put_name 50000 ''240101'' = ''P-BTC-50000-240101''"
  "''C-BTC-50000-240101'' \<in> set (symbols perp_config)"
  "''P-BTC-50000-240101'' \<in> set (symbols perp_config)"
  by (simp_all add: atm_strike_def py_round_def call_name_def put_name_def str_int_def
        str_nat.simps perp_config_def)

lemma perp_run:
  "\<exists>s. startSimulation perp_config utc_host perp_rows Simulator_init = Inr s \<and>
     in_position (strategy s) \<and> entry_price (strategy s) = Some 50010 \<and>
     map fside (trades s) = [''sell'', ''sell''] \<and>
     dict_get (currentPrice s) (Some ''BTCUSDT-PERP'') 0 = 51000 \<and>
     dict_get (currentPrice s) (Some ''BTCUSDT'') 0 = 50000"
  by (simp add: perp_rows_def Let_def onMarketData_def entry_block_def exit_block_def
        exit_condition_def perp_expiries perp_names dt_hour_def dt_minute_def utc_host_def
        Simulator_init_def Strategy_init_def strategy_onOrder trades_onOrder fill_of_def
        confirmation_value_def trade_price_def slippage_def dict_get_def)

lemma entered_facts:
  "\<not> in_position (strategy entered_state)"
  "pnl (strategy entered_state) = 0" "trades entered_state = []"
  "dict_get (currentPrice entered_state) (Some ''C-BTC-50000-240101'') (close trigger_row) = 50050"
  "dict_get (currentPrice entered_state) (Some ''P-BTC-50000-240101'') (close trigger_row) = 50050"
  by (simp_all add: entered_state_def Simulator_init_def Strategy_init_def dict_get_def
        trigger_row_def)

lemma entered_sells_reach_target:
  "500 \<le> pnl (strategy entered_state)
      + fquantity (fill_of (Some ''C-BTC-50000-240101'', ''sell'', 1 / 10,
            dict_get (currentPrice entered_state) (Some ''C-BTC-50000-240101'') (close trigger_row)))
        * fprice (fill_of (Some ''C-BTC-50000-240101'', ''sell'', 1 / 10,
            dict_get (currentPrice entered_state) (Some ''C-BTC-50000-240101'') (close trigger_row)))
      + fquantity (fill_of (Some ''P-BTC-50000-240101'', ''sell'', 1 / 10,
            dict_get (currentPrice entered_state) (Some ''P-BTC-50000-240101'') (close trigger_row)))
        * fprice (fill_of (Some ''P-BTC-50000-240101'', ''sell'', 1 / 10,
            dict_get (currentPrice entered_state) (Some ''P-BTC-50000-240101'') (close trigger_row)))"
  by (simp add: entered_facts fill_of_def trade_price_def slippage_def)

section \<open>The exit\<close>

text \<open>
  C2 does not hold as it stands, in two ways. With a stored entry price of 0 the quotient
  raises \<^verbatim>\<open>ZeroDivisionError\<close> before the accumulator is looked at: in position with
  an accumulator of 1000 no closing order is submitted, and a flat strategy that enters on a
  trigger tick at the price 0 raises in the exit check of the same call. And the price that
  the exit check reads is the one stored under the key \<^verbatim>\<open>BTCUSDT\<close> exactly: in
  position with the entry price 50010, a tick of \<^verbatim>\<open>BTCUSDT-PERP\<close> (a symbol that
  fires the entry) at 51000, which is 1.98 percent away, leaves the state as it is, since
  \<^verbatim>\<open>BTCUSDT\<close> itself is at 50000.
\<close>

theorem exit_iff_condition_counterexample:
  "in_position (strategy zero_entry_state) \<and> 500 \<le> pnl (strategy zero_entry_state) \<and>
   onMarketData example_config utc_host option_row zero_entry_state = Inl ZeroDivisionError \<and>
   onMarketData zero_config utc_host zero_row zero_flat_state = Inl ZeroDivisionError \<and>
   in_position (strategy perp_state) \<and> entry_price (strategy perp_state) = Some 50010 \<and>
   str_contains ''BTCUSDT'' (Symbol perp_row) \<and>
   1 / 100 < \<bar>dict_get (currentPrice perp_state) (Some (Symbol perp_row)) 0 - 50010\<bar> / 50010 \<and>
   onMarketData perp_config utc_host perp_row perp_state = Inr perp_state"
proof -
  have m: "1 / 100 < \<bar>dict_get (currentPrice perp_state) (Some (Symbol perp_row)) 0 - 50010\<bar> / 50010"
    by (simp add: perp_facts)
  show ?thesis
    by (intro conjI zero_entry_raises zero_tick_raises perp_facts(1) perp_facts(2) perp_facts(6)
          m perp_stays)
qed

text \<open>
  The two situations arise in runs from a fresh simulator: \<open>zero_tick_raises\<close> is the
  first, and in the feed \<open>perp_rows\<close> the entry is fired by \<^verbatim>\<open>BTCUSDT-PERP\<close> at
  50010 and the position stays open through its tick at 51000 (\<open>perp_run\<close>). Between
  two events of such a run an open position always has a non-zero entry price
  (\<open>reached_entry_nonzero\<close>).
\<close>

text \<open>
  C2 (amended). While the strategy is in position with a stored entry price that is not
  zero, a market-data event for any symbol returns normally, and it submits the two closing
  buy orders of quantity 0.1 (call leg, then put leg) and leaves the position exactly when
  the price stored under the key \<^verbatim>\<open>BTCUSDT\<close> (0 when none is stored) differs from
  the entry price by more than 0.01 of the entry price, or the accumulator of the strategy
  is at least 500, or it is at most -500; otherwise the state is unchanged.
\<close>

theorem exit_iff_condition:
  assumes "in_position (strategy s)"
    and "entry_price (strategy s) = Some entry"
    and "entry \<noteq> 0"
  shows "\<exists>s'. onMarketData cfg h r s = Inr s' \<and>
           (if \<bar>dict_get (currentPrice s) (Some ''BTCUSDT'') 0 - entry\<bar> / entry > 1 / 100
               \<or> pnl (strategy s) \<ge> 500 \<or> pnl (strategy s) \<le> - 500
            then \<not> in_position (strategy s') \<and>
                 trades s' = trades s @
                   [fill_of (call_strike (strategy s), ''buy'', 1 / 10,
                      dict_get (currentPrice s) (call_strike (strategy s)) (close r)),
                    fill_of (put_strike (strategy s), ''buy'', 1 / 10,
                      dict_get (currentPrice s) (put_strike (strategy s)) (close r))]
            else s' = s)"
  using assms
  by (simp add: onMarketData_def entry_block_in_position exit_block_def exit_condition_def
        Let_def trades_onOrder strategy_onOrder)

theorem exit_iff_condition_witness:
  "in_position (strategy moved_state) \<and> in_position (strategy calm_state) \<and>
   (\<exists>s'. onMarketData example_config utc_host option_row moved_state = Inr s' \<and>
      \<not> in_position (strategy s') \<and> length (trades s') = 2) \<and>
   onMarketData example_config utc_host option_row calm_state = Inr calm_state"
proof -
  have nz: "(50000::real) \<noteq> 0" by simp
  from exit_iff_condition [OF moved_facts(1) moved_facts(2) nz, of example_config utc_host option_row]
  have a: "\<exists>s'. onMarketData example_config utc_host option_row moved_state = Inr s' \<and>
      \<not> in_position (strategy s') \<and> length (trades s') = 2"
    by (auto simp add: moved_facts)
  from exit_iff_condition [OF calm_facts(1) calm_facts(2) nz, of example_config utc_host option_row]
  have b: "onMarketData example_config utc_host option_row calm_state = Inr calm_state"
    by (simp add: calm_facts)
  show ?thesis by (intro conjI moved_facts(1) calm_facts(1) a b)
qed

section \<open>Entry gating\<close>

text \<open>
  C3. The at-the-money strike derived from the trigger price 50050 is 50000. And whenever
  the strategy is flat and the call identifier or the put identifier derived from the tick
  is not in the configured universe, the market-data event returns normally with no order
  submitted (no fill, no change of the ledger) and the strategy still flat.
\<close>

theorem entry_gating:
  "atm_strike 50050 = 50000 \<and>
   (\<not> in_position (strategy s) \<and>
    (call_name (atm_strike (close r)) (earliest (expiries_of cfg)) \<notin> set (symbols cfg) \<or>
     put_name (atm_strike (close r)) (earliest (expiries_of cfg)) \<notin> set (symbols cfg)) \<longrightarrow>
    (\<exists>s'. onMarketData cfg h r s = Inr s' \<and> trades s' = trades s \<and>
       \<not> in_position (strategy s') \<and> buyValue s' = buyValue s \<and>
       sellValue s' = sellValue s \<and> currQuantity s' = currQuantity s))"
proof (intro conjI impI)
  show "atm_strike 50050 = 50000"
    by (simp add: atm_strike_def py_round_def)
next
  assume a: "\<not> in_position (strategy s) \<and>
    (call_name (atm_strike (close r)) (earliest (expiries_of cfg)) \<notin> set (symbols cfg) \<or>
     put_name (atm_strike (close r)) (earliest (expiries_of cfg)) \<notin> set (symbols cfg))"
  from entry_block_skipped [of s r cfg h] a obtain b s1 where
    e: "entry_block cfg h r s = (b, s1)" and k: "trades s1 = trades s"
      "\<not> in_position (strategy s1)" "buyValue s1 = buyValue s"
      "sellValue s1 = sellValue s" "currQuantity s1 = currQuantity s"
    by blast
  have "onMarketData cfg h r s = Inr s1"
    using e k(2) by (cases b) (simp_all add: onMarketData_def exit_block_flat)
  then show "\<exists>s'. onMarketData cfg h r s = Inr s' \<and> trades s' = trades s \<and>
       \<not> in_position (strategy s') \<and> buyValue s' = buyValue s \<and>
       sellValue s' = sellValue s \<and> currQuantity s' = currQuantity s"
    using k by simp
qed

theorem entry_gating_witness:
  "\<not> in_position (strategy Simulator_init) \<and>
   call_name (atm_strike (close trigger_row)) (earliest (expiries_of unlisted_config))
     \<notin> set (symbols unlisted_config) \<and>
   (\<exists>s'. onMarketData unlisted_config utc_host trigger_row Simulator_init = Inr s' \<and>
      trades s' = [] \<and> \<not> in_position (strategy s'))"
proof -
  have f: "\<not> in_position (strategy Simulator_init)"
    by (simp add: Simulator_init_def Strategy_init_def)
  have c: "call_name (atm_strike (close trigger_row)) (earliest (expiries_of unlisted_config))
     \<notin> set (symbols unlisted_config)"
    by (simp add: atm_trigger expiries_unlisted names_50000) (simp add: unlisted_config_def)
  have t: "trades Simulator_init = []" by (simp add: Simulator_init_def)
  show ?thesis
    using entry_gating [of Simulator_init trigger_row unlisted_config utc_host] f c t
    by auto
qed

section \<open>Entry and exit on one tick\<close>

text \<open>
  C9. A flat strategy that receives a trigger tick at 13:00 with both derived identifiers
  listed enters, and when the two sell fills of the entry alone take its accumulator to 500
  or more, the exit check of the same call closes the position again: the call returns with
  the strategy flat and four fills appended, two sells and two buys. The witness is such a
  tick.
\<close>

theorem enter_and_exit_same_tick:
  assumes "\<not> in_position (strategy s)"
    and "str_contains ''BTCUSDT'' (Symbol r)"
    and "dt_hour h (timestamp r) = 13" and "dt_minute h (timestamp r) = 0"
    and "expiries_of cfg \<noteq> []"
    and "call = call_name (atm_strike (close r)) (earliest (expiries_of cfg))"
    and "put = put_name (atm_strike (close r)) (earliest (expiries_of cfg))"
    and "call \<in> set (symbols cfg)" and "put \<in> set (symbols cfg)"
    and "close r \<noteq> 0"
    and "sell_call = fill_of (Some call, ''sell'', 1 / 10, dict_get (currentPrice s) (Some call) (close r))"
    and "sell_put = fill_of (Some put, ''sell'', 1 / 10, dict_get (currentPrice s) (Some put) (close r))"
    and "500 \<le> pnl (strategy s) + fquantity sell_call * fprice sell_call
                                    + fquantity sell_put * fprice sell_put"
  shows "\<exists>s'. onMarketData cfg h r s = Inr s' \<and> \<not> in_position (strategy s') \<and>
           trades s' = trades s @
             [sell_call, sell_put,
              fill_of (Some call, ''buy'', 1 / 10, dict_get (currentPrice s) (Some call) (close r)),
              fill_of (Some put, ''buy'', 1 / 10, dict_get (currentPrice s) (Some put) (close r))]"
proof -
  let ?s1 = "s\<lparr>strategy := (strategy s)\<lparr>entry_price := Some (close r)\<rparr>\<rparr>"
  let ?s2 = "?s1\<lparr>strategy := (strategy ?s1)\<lparr>call_strike := Some call, put_strike := Some put\<rparr>\<rparr>"
  let ?s3 = "onOrder (Some call) ''sell'' (1 / 10) (dict_get (currentPrice s) (Some call) (close r)) ?s2"
  let ?s4 = "onOrder (Some put) ''sell'' (1 / 10) (dict_get (currentPrice s) (Some put) (close r)) ?s3"
  let ?s5 = "?s4\<lparr>strategy := (strategy ?s4)\<lparr>in_position := True\<rparr>\<rparr>"
  have e: "entry_block cfg h r s = (False, ?s5)"
    using assms(1-9) by (simp add: entry_block_def Let_def)
  have p: "pnl (strategy ?s5) = pnl (strategy s) + fquantity sell_call * fprice sell_call
                                    + fquantity sell_put * fprice sell_put"
    by (simp add: strategy_onOrder confirmation_value_def fill_of_def assms(11,12))
  have x: "exit_condition (dict_get (currentPrice ?s5) (Some ''BTCUSDT'') 0) (close r) (pnl (strategy ?s5))"
    unfolding exit_condition_def using assms(13) p by simp
  have s5: "in_position (strategy ?s5)" "entry_price (strategy ?s5) = Some (close r)"
    "call_strike (strategy ?s5) = Some call" "put_strike (strategy ?s5) = Some put"
    "currentPrice ?s5 = currentPrice s"
    "trades ?s5 = trades s @ [sell_call, sell_put]"
    by (simp_all add: strategy_onOrder trades_onOrder assms(11,12))
  show ?thesis
    unfolding onMarketData_def e
    using x s5 assms(10)
    by (simp add: exit_block_def Let_def strategy_onOrder trades_onOrder del: One_nat_def)
qed

theorem enter_and_exit_same_tick_witness:
  "\<not> in_position (strategy entered_state) \<and>
   (\<exists>s'. onMarketData example_config utc_host trigger_row entered_state = Inr s' \<and>
      \<not> in_position (strategy s') \<and>
      map fsymbol (trades s') =
        [Some ''C-BTC-50000-240101'', Some ''P-BTC-50000-240101'',
         Some ''C-BTC-50000-240101'', Some ''P-BTC-50000-240101''] \<and>
      map fside (trades s') = [''sell'', ''sell'', ''buy'', ''buy''])"
proof -
  have ex: "expiries_of example_config \<noteq> []"
    by (simp add: expiries_example)
  have call: "''C-BTC-50000-240101'' =
      call_name (atm_strike (close trigger_row)) (earliest (expiries_of example_config))"
    and put: "''P-BTC-50000-240101'' =
      put_name (atm_strike (close trigger_row)) (earliest (expiries_of example_config))"
    by (simp_all add: atm_trigger expiries_example names_50000)
  have listed: "''C-BTC-50000-240101'' \<in> set (symbols example_config)"
    "''P-BTC-50000-240101'' \<in> set (symbols example_config)"
    by (simp_all add: example_config_def)
  have nz: "close trigger_row \<noteq> 0" by (simp add: trigger_row_def)
  from enter_and_exit_same_tick [OF entered_facts(1) trigger_time(3) trigger_time(1) trigger_time(2)
      ex call put listed nz refl refl entered_sells_reach_target]
  obtain s' where
    r: "onMarketData example_config utc_host trigger_row entered_state = Inr s'"
      "\<not> in_position (strategy s')"
      "trades s' = trades entered_state @
         [fill_of (Some ''C-BTC-50000-240101'', ''sell'', 1 / 10,
            dict_get (currentPrice entered_state) (Some ''C-BTC-50000-240101'') (close trigger_row)),
          fill_of (Some ''P-BTC-50000-240101'', ''sell'', 1 / 10,
            dict_get (currentPrice entered_state) (Some ''P-BTC-50000-240101'') (close trigger_row)),
          fill_of (Some ''C-BTC-50000-240101'', ''buy'', 1 / 10,
            dict_get (currentPrice entered_state) (Some ''C-BTC-50000-240101'') (close trigger_row)),
          fill_of (Some ''P-BTC-50000-240101'', ''buy'', 1 / 10,
            dict_get (currentPrice entered_state) (Some ''P-BTC-50000-240101'') (close trigger_row))]"
    by (elim exE conjE) (rule that)
  have m: "map fsymbol (trades s') =
        [Some ''C-BTC-50000-240101'', Some ''P-BTC-50000-240101'',
         Some ''C-BTC-50000-240101'', Some ''P-BTC-50000-240101'']"
    "map fside (trades s') = [''sell'', ''sell'', ''buy'', ''buy'']"
    unfolding r(3) by (simp_all add: fill_of_def entered_facts)
  show ?thesis
    by (intro conjI exI [of _ s'] entered_facts(1) r(1) r(2) m)
qed

section \<open>The accumulator of the strategy\<close>

text \<open>
  C10. The exit leaves every field of the strategy as it was but two: the position flag is
  cleared, and the accumulator is lowered by the notionals of the two closing buys, through
  their confirmations; it is not reset. Over a whole run from a fresh simulator the
  accumulator is the sum of the confirmation values of all fills of the run, across every
  position taken, and that cumulative value is what the thresholds are compared with.
\<close>

theorem realized_pnl_never_reset:
  "(in_position (strategy s) \<and> entry_price (strategy s) = Some entry \<and> entry \<noteq> 0 \<and>
    exit_condition (dict_get (currentPrice s) (Some ''BTCUSDT'') 0) entry (pnl (strategy s)) \<longrightarrow>
      (\<exists>s'. onMarketData cfg h r s = Inr s' \<and>
         strategy s' = (strategy s)
           \<lparr>in_position := False,
            pnl := pnl (strategy s)
              + confirmation_value (fill_of (call_strike (strategy s), ''buy'', 1 / 10,
                  dict_get (currentPrice s) (call_strike (strategy s)) (close r)))
              + confirmation_value (fill_of (put_strike (strategy s), ''buy'', 1 / 10,
                  dict_get (currentPrice s) (put_strike (strategy s)) (close r)))\<rparr>)) \<and>
   (startSimulation cfg h rs Simulator_init = Inr s'' \<longrightarrow>
      pnl (strategy s'') = (\<Sum>f\<leftarrow>trades s''. confirmation_value f))"
proof (intro conjI impI)
  assume a: "in_position (strategy s) \<and> entry_price (strategy s) = Some entry \<and> entry \<noteq> 0 \<and>
    exit_condition (dict_get (currentPrice s) (Some ''BTCUSDT'') 0) entry (pnl (strategy s))"
  then show "\<exists>s'. onMarketData cfg h r s = Inr s' \<and>
         strategy s' = (strategy s)
           \<lparr>in_position := False,
            pnl := pnl (strategy s)
              + confirmation_value (fill_of (call_strike (strategy s), ''buy'', 1 / 10,
                  dict_get (currentPrice s) (call_strike (strategy s)) (close r)))
              + confirmation_value (fill_of (put_strike (strategy s), ''buy'', 1 / 10,
                  dict_get (currentPrice s) (put_strike (strategy s)) (close r)))\<rparr>"
    by (simp add: onMarketData_def entry_block_in_position exit_block_def Let_def
          strategy_onOrder)
next
  assume "startSimulation cfg h rs Simulator_init = Inr s''"
  from startSimulation_frame [OF this] obtain new where
    "trades s'' = trades Simulator_init @ new"
    "pnl (strategy s'') = pnl (strategy Simulator_init) + (\<Sum>f\<leftarrow>new. confirmation_value f)"
    by (elim exE conjE)
  then show "pnl (strategy s'') = (\<Sum>f\<leftarrow>trades s''. confirmation_value f)"
    by (simp add: Simulator_init_def Strategy_init_def)
qed

theorem realized_pnl_never_reset_witness:
  "in_position (strategy moved_state) \<and>
   (\<exists>s'. onMarketData example_config utc_host option_row moved_state = Inr s' \<and>
      \<not> in_position (strategy s') \<and>
      pnl (strategy s') = 100 - 1 / 10 * trade_price ''buy'' 1200 - 1 / 10 * trade_price ''buy'' 1200 \<and>
      pnl (strategy s') \<noteq> 0) \<and>
   (\<exists>s''. startSimulation example_config utc_host [trigger_row] Simulator_init = Inr s'' \<and>
      pnl (strategy s'') = (\<Sum>f\<leftarrow>trades s''. confirmation_value f))"
proof -
  have nz: "(50000::real) \<noteq> 0" by simp
  have pre: "in_position (strategy moved_state) \<and> entry_price (strategy moved_state) = Some 50000 \<and>
    (50000::real) \<noteq> 0 \<and>
    exit_condition (dict_get (currentPrice moved_state) (Some ''BTCUSDT'') 0) 50000
      (pnl (strategy moved_state))"
    by (intro conjI moved_facts(1) moved_facts(2) nz moved_exit)
  have "\<exists>s'. onMarketData example_config utc_host option_row moved_state = Inr s' \<and>
         strategy s' = (strategy moved_state)
           \<lparr>in_position := False,
            pnl := pnl (strategy moved_state)
              + confirmation_value (fill_of (call_strike (strategy moved_state), ''buy'', 1 / 10,
                  dict_get (currentPrice moved_state) (call_strike (strategy moved_state)) (close option_row)))
              + confirmation_value (fill_of (put_strike (strategy moved_state), ''buy'', 1 / 10,
                  dict_get (currentPrice moved_state) (put_strike (strategy moved_state)) (close option_row)))\<rparr>"
    by (rule realized_pnl_never_reset [THEN conjunct1, THEN mp, OF pre])
  then obtain s' where s': "onMarketData example_config utc_host option_row moved_state = Inr s'"
    "strategy s' = (strategy moved_state)
           \<lparr>in_position := False,
            pnl := pnl (strategy moved_state)
              + confirmation_value (fill_of (call_strike (strategy moved_state), ''buy'', 1 / 10,
                  dict_get (currentPrice moved_state) (call_strike (strategy moved_state)) (close option_row)))
              + confirmation_value (fill_of (put_strike (strategy moved_state), ''buy'', 1 / 10,
                  dict_get (currentPrice moved_state) (put_strike (strategy moved_state)) (close option_row)))\<rparr>"
    by (elim exE conjE)
  have f: "\<not> in_position (strategy s')" unfolding s'(2) by simp
  have refs: "dict_get (currentPrice moved_state) (call_strike (strategy moved_state)) (close option_row) = 1200"
    "dict_get (currentPrice moved_state) (put_strike (strategy moved_state)) (close option_row) = 1200"
    by (simp_all add: moved_state_def Simulator_init_def dict_get_def option_row_def)
  have p: "pnl (strategy s') = 100 - 1 / 10 * trade_price ''buy'' 1200 - 1 / 10 * trade_price ''buy'' 1200"
    unfolding s'(2) refs by (simp add: moved_facts confirmation_value_def fill_of_def)
  have q: "pnl (strategy s') \<noteq> 0"
    unfolding p by (simp add: trade_price_def slippage_def)
  have a: "\<exists>s'. onMarketData example_config utc_host option_row moved_state = Inr s' \<and>
      \<not> in_position (strategy s') \<and>
      pnl (strategy s') = 100 - 1 / 10 * trade_price ''buy'' 1200 - 1 / 10 * trade_price ''buy'' 1200 \<and>
      pnl (strategy s') \<noteq> 0"
    by (intro exI [of _ s'] conjI s'(1) f p q)
  have "\<exists>s''. startSimulation example_config utc_host [trigger_row] Simulator_init = Inr s''"
    by (rule startSimulation_total [OF trigger_nonzero init_recorded])
  then obtain s'' where
    run: "startSimulation example_config utc_host [trigger_row] Simulator_init = Inr s''" ..
  have "pnl (strategy s'') = (\<Sum>f\<leftarrow>trades s''. confirmation_value f)"
    by (rule realized_pnl_never_reset [THEN conjunct2, THEN mp, OF run])
  then have b: "\<exists>s''. startSimulation example_config utc_host [trigger_row] Simulator_init = Inr s'' \<and>
      pnl (strategy s'') = (\<Sum>f\<leftarrow>trades s''. confirmation_value f)"
    using run by (intro exI [of _ s''] conjI)
  show ?thesis by (intro conjI moved_facts(1) a b)
qed

section \<open>The emitted series\<close>

lemma data_frames_example:
  "data_frames example_config data_host =
     [read_csv ''BTCUSDT'' [(1704114000, 50050), (1704114120, 50100)],
      read_csv ''C-BTC-50000-240101'' [(1704114060, 1200)]]"
  by (simp add: data_frames_def example_config_def data_host_def file_path_def
        List.map_filter_simps)

lemma rows_example:
  "concat (map rows (data_frames example_config data_host)) =
     [\<lparr>timestamp = 1704114000, Symbol = ''BTCUSDT'', close = 50050\<rparr>,
      \<lparr>timestamp = 1704114120, Symbol = ''BTCUSDT'', close = 50100\<rparr>,
      \<lparr>timestamp = 1704114060, Symbol = ''C-BTC-50000-240101'', close = 1200\<rparr>]"
  by (simp add: data_frames_example read_csv_def)

text \<open>
  C5. Whenever the script runs to its end, the series it writes has exactly one entry per
  row of the loaded frame, with the timestamps of the rows in their order, so its length is
  the number of rows of the data files found, and its timestamps are non-decreasing. The
  script does run to its end when at least one data file is found and no price is zero.
\<close>

theorem pnl_series_shape:
  "(main cfg h = Inr s \<longrightarrow>
      (\<exists>df. readData cfg h = Inr df \<and>
         map fst (pnl_log s) = map timestamp (rows df) \<and>
         length (pnl_log s) = length (concat (map rows (data_frames cfg h))) \<and>
         sorted (map fst (pnl_log s)))) \<and>
   (data_frames cfg h \<noteq> [] \<and>
    (\<forall>r\<in>set (concat (map rows (data_frames cfg h))). close r \<noteq> 0) \<longrightarrow>
      (\<exists>s'. main cfg h = Inr s'))"
proof (intro conjI impI)
  assume m: "main cfg h = Inr s"
  then obtain df where df: "readData cfg h = Inr df"
    and run: "startSimulation cfg h (rows df) Simulator_init = Inr s"
    by (auto simp add: main_def split: sum.splits)
  have rw: "rows df = sort_key timestamp (concat (map rows (data_frames cfg h)))"
    using readData_rows [OF df] by simp
  have l: "map fst (pnl_log s) = map timestamp (rows df)"
    using startSimulation_log [OF run] by (simp add: Simulator_init_def)
  have "length (pnl_log s) = length (rows df)"
    using arg_cong [OF l, of length] by simp
  then have n: "length (pnl_log s) = length (concat (map rows (data_frames cfg h)))"
    unfolding rw by simp
  have "sorted (map fst (pnl_log s))"
    unfolding l rw by (rule sorted_sort_key)
  then show "\<exists>df. readData cfg h = Inr df \<and>
         map fst (pnl_log s) = map timestamp (rows df) \<and>
         length (pnl_log s) = length (concat (map rows (data_frames cfg h))) \<and>
         sorted (map fst (pnl_log s))"
    using df l n by simp
next
  assume a: "data_frames cfg h \<noteq> [] \<and>
    (\<forall>r\<in>set (concat (map rows (data_frames cfg h))). close r \<noteq> 0)"
  then obtain df where df: "readData cfg h = Inr df" using readData_found by blast
  have "set (rows df) = set (concat (map rows (data_frames cfg h)))"
    using readData_rows [OF df] by simp
  then have "\<forall>r\<in>set (rows df). close r \<noteq> 0" using a by simp
  from startSimulation_total [OF this init_recorded]
  show "\<exists>s'. main cfg h = Inr s'" using df by (simp add: main_def)
qed

theorem pnl_series_shape_witness:
  "data_frames example_config data_host \<noteq> [] \<and>
   (\<exists>s. main example_config data_host = Inr s \<and>
      map fst (pnl_log s) = [1704114000, 1704114060, 1704114120] \<and>
      length (pnl_log s) = 3 \<and> sorted (map fst (pnl_log s)))"
proof -
  have ne: "data_frames example_config data_host \<noteq> []"
    by (simp add: data_frames_example)
  have nz: "\<forall>r\<in>set (concat (map rows (data_frames example_config data_host))). close r \<noteq> 0"
    unfolding rows_example by simp
  have "\<exists>s'. main example_config data_host = Inr s'"
    by (rule pnl_series_shape [THEN conjunct2, THEN mp, OF conjI [OF ne nz]])
  then obtain s where m: "main example_config data_host = Inr s" ..
  have "\<exists>df. readData example_config data_host = Inr df \<and>
         map fst (pnl_log s) = map timestamp (rows df) \<and>
         length (pnl_log s) = length (concat (map rows (data_frames example_config data_host))) \<and>
         sorted (map fst (pnl_log s))"
    by (rule pnl_series_shape [THEN conjunct1, THEN mp, OF m])
  then obtain df where df: "readData example_config data_host = Inr df"
    "map fst (pnl_log s) = map timestamp (rows df)"
    "length (pnl_log s) = length (concat (map rows (data_frames example_config data_host)))"
    "sorted (map fst (pnl_log s))"
    by (elim exE conjE)
  have "rows df = sort_key timestamp (concat (map rows (data_frames example_config data_host)))"
    using readData_rows [OF df(1)] by simp
  then have "map timestamp (rows df) = [1704114000, 1704114060, 1704114120]"
    unfolding rows_example by simp
  then have a: "map fst (pnl_log s) = [1704114000, 1704114060, 1704114120]"
    using df(2) by simp
  have b: "length (pnl_log s) = 3" using df(3) unfolding rows_example by simp
  show ?thesis by (intro conjI exI [of _ s] ne m a b df(4))
qed

section \<open>Replay\<close>

text \<open>The host enters a run only through the local hour and minute of the rows.\<close>

lemma entry_block_clock:
  assumes "dt_hour h1 (timestamp r) = dt_hour h2 (timestamp r)"
    and "dt_minute h1 (timestamp r) = dt_minute h2 (timestamp r)"
  shows "entry_block cfg h1 r s = entry_block cfg h2 r s"
  unfolding entry_block_def Let_def assms ..

lemma onMarketData_clock:
  assumes "dt_hour h1 (timestamp r) = dt_hour h2 (timestamp r)"
    and "dt_minute h1 (timestamp r) = dt_minute h2 (timestamp r)"
  shows "onMarketData cfg h1 r s = onMarketData cfg h2 r s"
  by (simp add: onMarketData_def entry_block_clock [OF assms])

lemma startSimulation_clock:
  "\<forall>r\<in>set rs. dt_hour h1 (timestamp r) = dt_hour h2 (timestamp r) \<and>
               dt_minute h1 (timestamp r) = dt_minute h2 (timestamp r) \<Longrightarrow>
   startSimulation cfg h1 rs s = startSimulation cfg h2 rs s"
proof (induction rs arbitrary: s)
  case Nil
  show ?case by simp
next
  case (Cons r rs)
  have "onMarketData cfg h1 r s' = onMarketData cfg h2 r s'" for s'
    using Cons.prems by (intro onMarketData_clock) simp_all
  moreover have "startSimulation cfg h1 rs s' = startSimulation cfg h2 rs s'" for s'
    using Cons.prems by (intro Cons.IH) simp
  ultimately show ?case by (simp only: startSimulation.simps)
qed

section \<open>The empty feed\<close>

text \<open>
  C4. With no data file found the list of frames is empty, \<^verbatim>\<open>readData\<close> sorts the
  frame without columns and raises \<^verbatim>\<open>KeyError\<close>, and so does the script; nothing
  is written. The loop of \<^verbatim>\<open>startSimulation\<close> over no rows, taken alone, returns the
  fresh simulator: an empty series and empty accumulators.
\<close>

theorem empty_feed_raises:
  "data_frames example_config utc_host = [] \<and>
   readData example_config utc_host = Inl (KeyError ''timestamp'') \<and>
   main example_config utc_host = Inl (KeyError ''timestamp'') \<and>
   startSimulation example_config utc_host [] Simulator_init = Inr Simulator_init"
proof -
  have d: "data_frames example_config utc_host = []"
    by (simp add: data_frames_def example_config_def utc_host_def List.map_filter_simps)
  have r: "readData example_config utc_host = Inl (KeyError ''timestamp'')"
    by (simp add: readData_def d DataFrame_def sort_values_def)
  have m: "main example_config utc_host = Inl (KeyError ''timestamp'')"
    by (simp add: main_def r)
  show ?thesis by (intro conjI d r m) simp
qed

end
